theory Spec2Isabelle
  imports Complex_Main
begin

section \<open>The map widget initializer of ZabUX (app/static/js/map.js)\<close>

text \<open>
  The repository's only executable artifact is a ten-line script:
  \<^verbatim>\<open>
  document.addEventListener('DOMContentLoaded', function () {
    const map = L.map('map').setView([32.7079, -96.9209], 10);

    L.tileLayer('https://{s}.basemaps.cartocdn.com/dark_all/{z}/{x}/{y}{r}.png', {
      attribution: '&copy; <a ...>OpenStreetMap</a> contributors &copy; <a ...>CARTO</a>',
      subdomains: 'abcd',
      maxZoom: 19
    }).addTo(map);
  });
  \<close>
  It registers one callback for the document's \<open>DOMContentLoaded\<close> event. The callback
  makes four calls into the mapping library, in this order: \<open>L.map\<close>, \<open>setView\<close> on its
  result, \<open>L.tileLayer\<close>, and \<open>addTo\<close> on that layer with the map as argument. There is no
  \<open>try\<close>/\<open>catch\<close>, no branch and no loop.

  The script is embedded as a computation in a state-and-exception monad. The mapping
  library and the browser's event dispatch are not part of the repository; the script is
  therefore written over an interface of library operations, and a reference model of the
  library's behaviour (Leaflet 1.x, whose \<open>L.map\<close> and \<open>L.tileLayer\<close> factories the script
  calls) instantiates that interface.
\<close>

subsection \<open>Values the script passes to the library\<close>

text \<open>
  A coordinate is the two-element array \<open>[lat, lng]\<close>. The literals are decimal numerals of
  the source text and no arithmetic is done on them, so they are kept as exact reals.
\<close>

type_synonym latlng = "real \<times> real"

text \<open>The options object literal of the \<open>L.tileLayer\<close> call: exactly these three keys.\<close>

record tile_options =
  attribution :: string
  subdomains :: string
  maxZoom :: int

text \<open>The literals of map.js, line 2: the centre and the zoom given to \<open>setView\<close>.\<close>

definition view_center :: latlng where
  "view_center = (32.7079, -96.9209)"

definition view_zoom :: int where
  "view_zoom = 10"

text \<open>The literals of map.js, lines 4 to 8: the URL template and the options.\<close>

definition tile_url :: string where
  "tile_url = ''https://{s}.basemaps.cartocdn.com/dark_all/{z}/{x}/{y}{r}.png''"

definition tile_opts :: tile_options where
  \<open>tile_opts =
     \<lparr>attribution = ''&copy; <a href="https://www.openstreetmap.org/">OpenStreetMap</a> contributors &copy; <a href="https://carto.com/">CARTO</a>'',
      subdomains = ''abcd'',
      maxZoom = 19\<rparr>\<close>

subsection \<open>Computations that change a state and may throw\<close>

text \<open>A thrown JavaScript \<open>Error\<close> object, with its message.\<close>

datatype fault = Error string

text \<open>
  A computation takes the state and gives back the state it leaves, with either the value
  it returns (\<open>Inr\<close>) or the fault it throws (\<open>Inl\<close>). A throw ends the enclosing
  sequence: what follows it is not evaluated.
\<close>

type_synonym ('w, 'a) js = "'w \<Rightarrow> (fault + 'a) \<times> 'w"

definition js_return :: "'a \<Rightarrow> ('w, 'a) js" where
  "js_return x = (\<lambda>w. (Inr x, w))"

definition js_throw :: "fault \<Rightarrow> ('w, 'a) js" where
  "js_throw e = (\<lambda>w. (Inl e, w))"

definition js_bind :: "('w, 'a) js \<Rightarrow> ('a \<Rightarrow> ('w, 'b) js) \<Rightarrow> ('w, 'b) js" where
  "js_bind m f = (\<lambda>w. case m w of (Inl e, w') \<Rightarrow> (Inl e, w') | (Inr x, w') \<Rightarrow> f x w')"

subsection \<open>The library interface the script calls\<close>

text \<open>
  The four operations of the mapping library that map.js uses. \<open>'m\<close> is the type of
  references to map objects, \<open>'l\<close> of references to layer objects. \<open>setView\<close> and \<open>addTo\<close>
  are methods: their first argument here is the receiver.
\<close>

record ('w, 'm, 'l) mapping_library =
  L_map :: "string \<Rightarrow> ('w, 'm) js"
  setView :: "'m \<Rightarrow> latlng \<Rightarrow> int \<Rightarrow> ('w, 'm) js"
  L_tileLayer :: "string \<Rightarrow> tile_options \<Rightarrow> ('w, 'l) js"
  addTo :: "'l \<Rightarrow> 'm \<Rightarrow> ('w, 'l) js"

subsection \<open>The callback\<close>

text \<open>
  The anonymous function of map.js, lines 1 to 10. JavaScript evaluates
  \<open>L.map('map')\<close>, then \<open>.setView(...)\<close>, binds the result to \<open>map\<close>, then evaluates
  \<open>L.tileLayer(...)\<close> and last \<open>.addTo(map)\<close>; the function returns \<open>undefined\<close>.
\<close>

definition initializer :: "('w, 'm, 'l) mapping_library \<Rightarrow> ('w, unit) js" where
  "initializer L =
     js_bind (L_map L ''map'') (\<lambda>m.
     js_bind (setView L m view_center view_zoom) (\<lambda>map.
     js_bind (L_tileLayer L tile_url tile_opts) (\<lambda>layer.
     js_bind (addTo L layer map) (\<lambda>_.
     js_return ()))))"

subsection \<open>The page: document, window, library objects, environment\<close>

text \<open>
  The callbacks a document can hold are function objects; the script creates one, the
  anonymous initializer.
\<close>

datatype callback = InitMap

text \<open>
  What the library inserts into an element: the panes and controls of a map (its drawing
  surface), and the tile container of a layer shown on a map. The number is the reference
  of the map or of the layer.
\<close>

datatype surface = MapPanes nat | LayerTiles nat

text \<open>
  An element of the document: its \<open>id\<close> attribute, the mark the library leaves on an
  element it has bound a map to (the property \<open>_leaflet_id\<close>; only its presence is ever
  tested, the model stores the map's reference in it), and what the library has inserted
  into the element. A reference to an element is its position in the document.
\<close>

record dom_node =
  node_id :: string
  leaflet_id :: "nat option"
  inserted :: "surface list"

text \<open>The one listener the library puts on the window: a map's resize handler.\<close>

datatype handler = OnResize nat

text \<open>A layer object: the URL template and the options it was constructed with.\<close>

record tile_layer =
  urlTemplate :: string
  layer_options :: tile_options

text \<open>
  A map object: the reference of the element it is bound to, its view (unset until
  \<open>setView\<close>), and the references of the layers added to it.
\<close>

record map_view =
  container :: nat
  center :: "latlng option"
  zoom :: "int option"
  attached :: "nat list"

text \<open>
  The state a run of the script can see or change:
  \<^item> the document's elements, in document order, and the document's event listeners;
  \<^item> the window's event listeners, and the table \<open>window._leaflet_events\<close> in which the
    library keeps the listeners it has put on the window;
  \<^item> the store of map objects and of layer objects (a reference is an index);
  \<^item> the layers for which the fetching of tile images over the network has been started,
    one entry for each start;
  \<^item> the faults reported as uncaught;
  \<^item> everything else of the environment (storage, files, variables), of which nothing is
    assumed.
\<close>

record 'e page =
  elements :: "dom_node list"
  listeners :: "(string \<times> callback) list"
  window_listeners :: "(string \<times> handler) list"
  window_leaflet_events :: "(string \<times> handler) list"
  views :: "map_view list"
  tiles :: "tile_layer list"
  requested :: "nat list"
  uncaught :: "fault list"
  env :: 'e

text \<open>An element as the document's markup gives it: unmarked and empty.\<close>

definition new_node :: "string \<Rightarrow> dom_node" where
  "new_node i = \<lparr>node_id = i, leaflet_id = None, inserted = []\<rparr>"

text \<open>
  A document as loaded, with elements of the given ids: no listener, no library object,
  no request, nothing reported.
\<close>

definition new_page :: "string list \<Rightarrow> 'e \<Rightarrow> 'e page" where
  "new_page els e =
     \<lparr>elements = map new_node els, listeners = [], window_listeners = [],
      window_leaflet_events = [], views = [], tiles = [], requested = [], uncaught = [],
      env = e\<rparr>"

text \<open>Reading a store at a reference; a reference outside the store reads nothing.\<close>

definition deref :: "'a list \<Rightarrow> nat \<Rightarrow> 'a option" where
  "deref xs i = (if i < length xs then Some (xs ! i) else None)"

text \<open>The position of the first entry with a property, if there is one.\<close>

fun first_index :: "('a \<Rightarrow> bool) \<Rightarrow> 'a list \<Rightarrow> nat option" where
  "first_index P [] = None"
| "first_index P (x # xs) = (if P x then Some 0 else map_option Suc (first_index P xs))"

text \<open>
  \<open>document.getElementById(id)\<close>: the first element of the document with that id, as a
  reference, or nothing (\<open>null\<close>).
\<close>

definition getElementById :: "'e page \<Rightarrow> string \<Rightarrow> nat option" where
  "getElementById w i = first_index (\<lambda>n. node_id n = i) (elements w)"

text \<open>The id of the element a map object is bound to.\<close>

definition container_id :: "'e page \<Rightarrow> map_view \<Rightarrow> string option" where
  "container_id w v = map_option node_id (deref (elements w) (container v))"

text \<open>The layers attached to a map object, in the order they were added.\<close>

definition attached_layers :: "'e page \<Rightarrow> map_view \<Rightarrow> tile_layer option list" where
  "attached_layers w v = map (deref (tiles w)) (attached v)"

text \<open>
  The configuration of the map bound to the mount element \<open>map\<close>: its centre, its zoom
  and its layers; \<open>None\<close> when no map is bound to that element.
\<close>

definition map_configuration ::
  "'e page \<Rightarrow> (latlng option \<times> int option \<times> tile_layer option list) option" where
  "map_configuration w =
     (case filter (\<lambda>v. container_id w v = Some ''map'') (views w) of
        [] \<Rightarrow> None
      | v # _ \<Rightarrow> Some (center v, zoom v, attached_layers w v))"

subsection \<open>Reference model of the mapping library\<close>

text \<open>
  The library (Leaflet) is third-party code outside the repository. The model below
  follows its behaviour for the four operations the script calls:
  \<^item> \<open>L.map(id)\<close> looks the element up and throws \<open>Map container not found.\<close> when the
    document has none with that id, and \<open>Map container is already initialized.\<close> when the
    element found carries the library's mark. Otherwise it creates a map object bound to
    that element, with no view and no layer; it marks the element and inserts the map's
    panes and controls into it; and, outside the element, it registers the map's resize
    handler on the window and records that registration in \<open>window._leaflet_events\<close>.
  \<^item> \<open>setView(center, zoom)\<close> stores the view (the map has no bounds configured) and
    returns the map. The layers the map has load the tiles of the new view; a layer added
    before the map had any view gets its tile container now.
  \<^item> \<open>L.tileLayer(url, options)\<close> creates a layer object and attaches it to nothing.
  \<^item> \<open>layer.addTo(map)\<close> adds the layer to the map unless the map has it already, and
    returns the layer. When the map has a view, the layer's tile container is inserted
    into the map's element and the fetching of its tiles starts.
  A reference outside its store cannot arise in JavaScript; the model answers it with a
  fault.
\<close>

text \<open>Inserting into the element at a reference; other elements are untouched.\<close>

definition insert_into :: "nat \<Rightarrow> surface list \<Rightarrow> dom_node list \<Rightarrow> dom_node list" where
  "insert_into k ss ns =
     (case deref ns k of
        None \<Rightarrow> ns
      | Some n \<Rightarrow> ns[k := n\<lparr>inserted := inserted n @ ss\<rparr>])"

definition leaflet_map :: "string \<Rightarrow> ('e page, nat) js" where
  "leaflet_map i w =
     (case getElementById w i of
        None \<Rightarrow> js_throw (Error ''Map container not found.'') w
      | Some k \<Rightarrow>
          (case leaflet_id (elements w ! k) of
             Some _ \<Rightarrow> js_throw (Error ''Map container is already initialized.'') w
           | None \<Rightarrow>
               js_return (length (views w))
                 (w\<lparr>elements :=
                      insert_into k [MapPanes (length (views w))]
                        ((elements w)
                           [k := (elements w ! k)\<lparr>leaflet_id := Some (length (views w))\<rparr>]),
                    views := views w @
                      [\<lparr>container = k, center = None, zoom = None, attached = []\<rparr>],
                    window_listeners :=
                      window_listeners w @ [(''resize'', OnResize (length (views w)))],
                    window_leaflet_events :=
                      window_leaflet_events w @
                        [(''resize'', OnResize (length (views w)))]\<rparr>)))"

definition leaflet_setView :: "nat \<Rightarrow> latlng \<Rightarrow> int \<Rightarrow> ('e page, nat) js" where
  "leaflet_setView m c z w =
     (case deref (views w) m of
        None \<Rightarrow> js_throw (Error ''dangling map reference'') w
      | Some v \<Rightarrow>
          js_return m
            (w\<lparr>views := (views w)[m := v\<lparr>center := Some c, zoom := Some z\<rparr>],
               elements :=
                 (if center v = None
                  then insert_into (container v) (map LayerTiles (attached v)) (elements w)
                  else elements w),
               requested := requested w @ attached v\<rparr>))"

definition leaflet_tileLayer :: "string \<Rightarrow> tile_options \<Rightarrow> ('e page, nat) js" where
  "leaflet_tileLayer u opts w =
     js_return (length (tiles w))
       (w\<lparr>tiles := tiles w @ [\<lparr>urlTemplate = u, layer_options = opts\<rparr>]\<rparr>)"

definition leaflet_addTo :: "nat \<Rightarrow> nat \<Rightarrow> ('e page, nat) js" where
  "leaflet_addTo l m w =
     (case (deref (tiles w) l, deref (views w) m) of
        (Some _, Some v) \<Rightarrow>
          (if l \<in> set (attached v) then js_return l w
           else if center v = None
             then js_return l (w\<lparr>views := (views w)[m := v\<lparr>attached := attached v @ [l]\<rparr>]\<rparr>)
           else js_return l
                  (w\<lparr>views := (views w)[m := v\<lparr>attached := attached v @ [l]\<rparr>],
                     elements := insert_into (container v) [LayerTiles l] (elements w),
                     requested := requested w @ [l]\<rparr>))
      | _ \<Rightarrow> js_throw (Error ''dangling reference'') w)"

definition leaflet :: "('e page, nat, nat) mapping_library" where
  "leaflet =
     \<lparr>L_map = leaflet_map, setView = leaflet_setView,
      L_tileLayer = leaflet_tileLayer, addTo = leaflet_addTo\<rparr>"

subsection \<open>The script and the document's events\<close>

text \<open>
  \<open>document.addEventListener(type, callback)\<close> appends the callback to the document's
  listeners. (The DOM skips a listener that is already registered with the same function
  object; every evaluation of the script creates a new function object, so its
  registration is never skipped.)
\<close>

definition addEventListener :: "string \<Rightarrow> callback \<Rightarrow> 'e page \<Rightarrow> 'e page" where
  "addEventListener ty cb w = w\<lparr>listeners := listeners w @ [(ty, cb)]\<rparr>"

text \<open>Evaluating map.js: its top level is the single \<open>addEventListener\<close> call.\<close>

definition script :: "'e page \<Rightarrow> 'e page" where
  "script w = addEventListener ''DOMContentLoaded'' InitMap w"

fun run_callback :: "('e page, 'm, 'l) mapping_library \<Rightarrow> callback \<Rightarrow> ('e page, unit) js" where
  "run_callback L InitMap = initializer L"

text \<open>
  The browser calls a listener and, when the listener throws, reports the fault as
  uncaught (console, \<open>window.onerror\<close>) and goes on with the next listener.
\<close>

definition invoke :: "('e page, 'm, 'l) mapping_library \<Rightarrow> callback \<Rightarrow> 'e page \<Rightarrow> 'e page" where
  "invoke L cb w =
     (case run_callback L cb w of
        (Inl e, w') \<Rightarrow> w'\<lparr>uncaught := uncaught w' @ [e]\<rparr>
      | (Inr _, w') \<Rightarrow> w')"

text \<open>
  Firing an event runs, in registration order, the listeners registered for its type at
  the moment of firing.
\<close>

definition dispatchEvent :: "('e page, 'm, 'l) mapping_library \<Rightarrow> string \<Rightarrow> 'e page \<Rightarrow> 'e page" where
  "dispatchEvent L ty w =
     fold (invoke L) (map snd (filter (\<lambda>(t, cb). t = ty) (listeners w))) w"

text \<open>
  What can happen to the page as far as this script is concerned: the script is evaluated,
  or an event of some type fires. An execution trace is a list of such steps.
\<close>

datatype step = RunScript | Fire string

fun exec_step :: "('e page, 'm, 'l) mapping_library \<Rightarrow> step \<Rightarrow> 'e page \<Rightarrow> 'e page" where
  "exec_step L RunScript w = script w"
| "exec_step L (Fire ty) w = dispatchEvent L ty w"

definition run_page :: "('e page, 'm, 'l) mapping_library \<Rightarrow> step list \<Rightarrow> 'e page \<Rightarrow> 'e page" where
  "run_page L steps w = fold (exec_step L) steps w"

text \<open>
  The element the script mounts the map on, the first with id \<open>map\<close>, carries the library's
  mark: a map is bound to it.
\<close>

definition mount_bound :: "'e page \<Rightarrow> bool" where
  "mount_bound w =
     (case getElementById w ''map'' of
        None \<Rightarrow> False
      | Some k \<Rightarrow> leaflet_id (elements w ! k) \<noteq> None)"

text \<open>A coordinate is a point of the globe: latitude and longitude within their ranges.\<close>

definition valid_latlng :: "latlng \<Rightarrow> bool" where
  "valid_latlng c = (- 90 \<le> fst c \<and> fst c \<le> 90 \<and> - 180 \<le> snd c \<and> snd c \<le> 180)"

section \<open>Properties\<close>

subsection \<open>The initializer over the reference library\<close>

text \<open>
  With the reference library the callback has three outcomes, decided by the first call:
  the mount element is missing, the element found is already marked, or the map is created
  and the remaining three calls succeed.
\<close>

lemmas js_defs = js_bind_def js_return_def js_throw_def

lemma deref_append_new: "deref (xs @ [x]) (length xs) = Some x"
  by (simp add: deref_def)

lemma first_index_Some:
  "first_index P xs = Some k \<Longrightarrow> k < length xs \<and> P (xs ! k)"
proof (induction xs arbitrary: k)
  case Nil
  then show ?case by simp
next
  case (Cons x xs)
  then show ?case by (auto split: if_splits)
qed

lemma first_index_None: "first_index P xs = None \<longleftrightarrow> (\<forall>x \<in> set xs. \<not> P x)"
  by (induction xs) auto

lemma first_index_map: "first_index (\<lambda>x. Q (f x)) xs = first_index Q (map f xs)"
  by (induction xs) simp_all

lemma getElementById_ids:
  "map node_id (elements w') = map node_id (elements w) \<Longrightarrow>
   getElementById w' i = getElementById w i"
  by (simp add: getElementById_def first_index_map [of "\<lambda>s. s = i" node_id])

lemma getElementById_valid:
  "getElementById w i = Some k \<Longrightarrow> k < length (elements w) \<and> node_id (elements w ! k) = i"
  unfolding getElementById_def by (drule first_index_Some) simp

lemma initializer_leaflet_absent:
  assumes "getElementById w ''map'' = None"
  shows "initializer leaflet w = (Inl (Error ''Map container not found.''), w)"
  using assms by (simp add: initializer_def leaflet_def leaflet_map_def js_defs)

lemma initializer_leaflet_bound:
  assumes "getElementById w ''map'' = Some k" and "leaflet_id (elements w ! k) = Some j"
  shows "initializer leaflet w = (Inl (Error ''Map container is already initialized.''), w)"
  using assms by (simp add: initializer_def leaflet_def leaflet_map_def js_defs)

lemma initializer_leaflet_ok:
  assumes "getElementById w ''map'' = Some k" and "leaflet_id (elements w ! k) = None"
  shows "initializer leaflet w =
    (Inr (),
     w\<lparr>elements := (elements w)
          [k := (elements w ! k)
             \<lparr>leaflet_id := Some (length (views w)),
              inserted := inserted (elements w ! k) @
                [MapPanes (length (views w)), LayerTiles (length (tiles w))]\<rparr>],
       views := views w @
          [\<lparr>container = k, center = Some view_center, zoom = Some view_zoom,
            attached = [length (tiles w)]\<rparr>],
       tiles := tiles w @ [\<lparr>urlTemplate = tile_url, layer_options = tile_opts\<rparr>],
       window_listeners := window_listeners w @ [(''resize'', OnResize (length (views w)))],
       window_leaflet_events :=
         window_leaflet_events w @ [(''resize'', OnResize (length (views w)))],
       requested := requested w @ [length (tiles w)]\<rparr>)"
proof -
  from getElementById_valid [OF assms(1)] have k: "k < length (elements w)" by simp
  with assms show ?thesis
    by (simp add: initializer_def leaflet_def leaflet_map_def leaflet_setView_def
        leaflet_tileLayer_def leaflet_addTo_def js_defs deref_def nth_append insert_into_def)
qed


lemma getElementById_None: "getElementById w i = None \<longleftrightarrow> i \<notin> set (map node_id (elements w))"
  by (auto simp add: getElementById_def first_index_None)

text \<open>
  Claim C1. On a page that contains the mount element \<open>map\<close>, invoking the initializer
  returns normally and produces exactly one map view: one map object is added to those
  that exist, it is bound to the element found for the id \<open>map\<close>, its centre is latitude
  32.7079, longitude -96.9209, and its zoom is 10. The page is one on which that element
  does not carry the library's mark yet, as on every page when it is loaded (the library
  refuses to bind an element twice).
\<close>

theorem initializer_creates_one_view:
  assumes "getElementById w ''map'' = Some k" and "leaflet_id (elements w ! k) = None"
  shows "\<exists>w' v. initializer leaflet w = (Inr (), w') \<and> views w' = views w @ [v] \<and>
           container v = k \<and> container_id w' v = Some ''map'' \<and>
           center v = Some (32.7079, -96.9209) \<and> zoom v = Some 10"
proof -
  from getElementById_valid [OF assms(1)]
  have "k < length (elements w)" and "node_id (elements w ! k) = ''map''" by simp_all
  with initializer_leaflet_ok [OF assms] show ?thesis
    by (simp add: view_center_def view_zoom_def container_id_def deref_def)
qed

theorem initializer_creates_one_view_witness:
  "getElementById (new_page [''nav'', ''map''] ()) ''map'' = Some 1 \<and>
   leaflet_id (elements (new_page [''nav'', ''map''] ()) ! 1) = None \<and>
   (\<exists>w' v. initializer leaflet (new_page [''nav'', ''map''] ()) = (Inr (), w') \<and>
      views w' = views (new_page [''nav'', ''map''] ()) @ [v] \<and>
      container v = 1 \<and> container_id w' v = Some ''map'' \<and>
      center v = Some (32.7079, -96.9209) \<and> zoom v = Some 10)"
proof -
  have present: "getElementById (new_page [''nav'', ''map''] ()) ''map'' = Some 1"
    by (simp add: getElementById_def new_page_def new_node_def)
  have unbound: "leaflet_id (elements (new_page [''nav'', ''map''] ()) ! 1) = None"
    by (simp add: new_page_def new_node_def)
  from initializer_creates_one_view [OF present unbound] present unbound
  show ?thesis by blast
qed

text \<open>
  Claim C2. On the same pages, the initializer constructs exactly one tile layer, the map
  view it created has exactly that layer attached, and the layer's configuration is the
  URL template, the attribution string, the subdomains \<open>abcd\<close> and the maximal zoom 19 of
  the script.
\<close>

theorem initializer_attaches_one_tile_layer:
  assumes \<open>getElementById w ''map'' = Some k\<close> and \<open>leaflet_id (elements w ! k) = None\<close>
  shows \<open>\<exists>w' v layer. initializer leaflet w = (Inr (), w') \<and> views w' = views w @ [v] \<and>
           tiles w' = tiles w @ [layer] \<and> attached_layers w' v = [Some layer] \<and>
           layer =
             \<lparr>urlTemplate = ''https://{s}.basemaps.cartocdn.com/dark_all/{z}/{x}/{y}{r}.png'',
              layer_options =
                \<lparr>attribution = ''&copy; <a href="https://www.openstreetmap.org/">OpenStreetMap</a> contributors &copy; <a href="https://carto.com/">CARTO</a>'',
                 subdomains = ''abcd'',
                 maxZoom = 19\<rparr>\<rparr>\<close>
  using initializer_leaflet_ok [OF assms]
  by (simp add: attached_layers_def deref_append_new tile_url_def tile_opts_def)

theorem initializer_attaches_one_tile_layer_witness:
  \<open>getElementById (new_page [''nav'', ''map''] ()) ''map'' = Some 1 \<and>
   leaflet_id (elements (new_page [''nav'', ''map''] ()) ! 1) = None \<and>
   (\<exists>w' v layer. initializer leaflet (new_page [''nav'', ''map''] ()) = (Inr (), w') \<and>
      views w' = views (new_page [''nav'', ''map''] ()) @ [v] \<and>
      tiles w' = tiles (new_page [''nav'', ''map''] ()) @ [layer] \<and>
      attached_layers w' v = [Some layer] \<and>
      layer =
        \<lparr>urlTemplate = ''https://{s}.basemaps.cartocdn.com/dark_all/{z}/{x}/{y}{r}.png'',
         layer_options =
           \<lparr>attribution = ''&copy; <a href="https://www.openstreetmap.org/">OpenStreetMap</a> contributors &copy; <a href="https://carto.com/">CARTO</a>'',
            subdomains = ''abcd'',
            maxZoom = 19\<rparr>\<rparr>)\<close>
proof -
  have present: "getElementById (new_page [''nav'', ''map''] ()) ''map'' = Some 1"
    by (simp add: getElementById_def new_page_def new_node_def)
  have unbound: "leaflet_id (elements (new_page [''nav'', ''map''] ()) ! 1) = None"
    by (simp add: new_page_def new_node_def)
  from initializer_attaches_one_tile_layer [OF present unbound] present unbound
  show ?thesis by blast
qed

text \<open>
  Claim C3. The static configuration is valid: the centre (32.7079, -96.9209) is a
  geographic coordinate, latitude within -90 and 90 and longitude within -180 and 180, and
  the initial zoom 10 is not negative and not above the layer's configured maximal
  zoom 19.
\<close>

theorem static_configuration_valid:
  "view_center = (32.7079, -96.9209) \<and> valid_latlng view_center \<and>
   view_zoom = 10 \<and> maxZoom tile_opts = 19 \<and> 0 \<le> view_zoom \<and> view_zoom \<le> maxZoom tile_opts"
  by (simp add: view_center_def view_zoom_def tile_opts_def valid_latlng_def)

text \<open>
  Claim C6. On a page where no element has the id \<open>map\<close> the initializer produces no map
  view silently: it throws the library's fault and leaves the page as it was, and since
  the script catches nothing, calling it as a listener reports that fault as uncaught.
\<close>

theorem missing_mount_fails_visibly:
  assumes "''map'' \<notin> set (map node_id (elements w))"
  shows "initializer leaflet w = (Inl (Error ''Map container not found.''), w) \<and>
         invoke leaflet InitMap w =
           w\<lparr>uncaught := uncaught w @ [Error ''Map container not found.'']\<rparr>"
proof -
  from assms have "getElementById w ''map'' = None" by (simp add: getElementById_None)
  from initializer_leaflet_absent [OF this] show ?thesis by (simp add: invoke_def)
qed

theorem missing_mount_fails_visibly_witness:
  "''map'' \<notin> set (map node_id (elements (new_page [''nav'', ''footer''] ()))) \<and>
   initializer leaflet (new_page [''nav'', ''footer''] ()) =
     (Inl (Error ''Map container not found.''), new_page [''nav'', ''footer''] ()) \<and>
   invoke leaflet InitMap (new_page [''nav'', ''footer''] ()) =
     (new_page [''nav'', ''footer''] ())
       \<lparr>uncaught := uncaught (new_page [''nav'', ''footer''] ()) @
          [Error ''Map container not found.'']\<rparr>"
proof -
  have absent: "''map'' \<notin> set (map node_id (elements (new_page [''nav'', ''footer''] ())))"
    by (simp add: new_page_def new_node_def)
  from missing_mount_fails_visibly [OF absent] absent show ?thesis by blast
qed

lemma initializer_stops_at_failed_view:
  assumes "js_bind (L_map L ''map'') (\<lambda>m. setView L m view_center view_zoom) w = (Inl e, w')"
  shows "initializer L w = (Inl e, w')"
  using assms
  by (auto simp add: initializer_def js_bind_def split: prod.splits sum.splits)

lemma leaflet_view_creation_failure:
  assumes "js_bind (L_map leaflet ''map'') (\<lambda>m. setView leaflet m view_center view_zoom) w =
             (Inl e, w')"
  shows "w' = w"
proof (cases "getElementById w ''map''")
  case None
  with assms show ?thesis by (simp add: leaflet_def leaflet_map_def js_defs)
next
  case (Some k)
  show ?thesis
  proof (cases "leaflet_id (elements w ! k)")
    case None
    with Some assms show ?thesis
      by (simp add: leaflet_def leaflet_map_def leaflet_setView_def js_defs deref_def)
  next
    case (Some j)
    with \<open>getElementById w ''map'' = Some k\<close> assms show ?thesis
      by (simp add: leaflet_def leaflet_map_def js_defs)
  qed
qed

text \<open>
  Claim C10. When creating the map view throws (the \<open>L.map('map').setView(...)\<close>
  expression of line 2), the initializer is atomic: the state the failed expression leaves
  is the state before the call, so nothing of the page, of the window or of the library's
  objects is modified and no tile layer object exists that did not exist before; the
  initializer throws the same fault; and the tile layer expression is never evaluated,
  the outcome being the same whatever \<open>L.tileLayer\<close> and \<open>addTo\<close> would have done.
\<close>

theorem failed_view_creation_is_atomic:
  assumes "js_bind (L_map leaflet ''map'') (\<lambda>m. setView leaflet m view_center view_zoom) w =
             (Inl e, w')"
  shows "w' = w \<and> initializer leaflet w = (Inl e, w) \<and>
         initializer (leaflet\<lparr>L_tileLayer := other_tileLayer, addTo := other_addTo\<rparr>) w =
           (Inl e, w)"
proof -
  from leaflet_view_creation_failure [OF assms] have same: "w' = w" .
  from initializer_stops_at_failed_view [OF assms] same
  have "initializer leaflet w = (Inl e, w)" by simp
  moreover from assms same
  have "js_bind (L_map (leaflet\<lparr>L_tileLayer := other_tileLayer, addTo := other_addTo\<rparr>) ''map'')
          (\<lambda>m. setView (leaflet\<lparr>L_tileLayer := other_tileLayer, addTo := other_addTo\<rparr>) m
             view_center view_zoom) w = (Inl e, w)"
    by simp
  then have "initializer (leaflet\<lparr>L_tileLayer := other_tileLayer, addTo := other_addTo\<rparr>) w =
      (Inl e, w)"
    by (rule initializer_stops_at_failed_view)
  ultimately show ?thesis using same by simp
qed

theorem failed_view_creation_is_atomic_witness:
  "js_bind (L_map leaflet ''map'') (\<lambda>m. setView leaflet m view_center view_zoom)
     (new_page [''nav''] ()) =
     (Inl (Error ''Map container not found.''), new_page [''nav''] ()) \<and>
   initializer leaflet (new_page [''nav''] ()) =
     (Inl (Error ''Map container not found.''), new_page [''nav''] ()) \<and>
   initializer (leaflet\<lparr>L_tileLayer := \<lambda>u opts. js_throw (Error ''unreachable''),
                        addTo := leaflet_addTo\<rparr>) (new_page [''nav''] ()) =
     (Inl (Error ''Map container not found.''), new_page [''nav''] ())"
proof -
  have failed: "js_bind (L_map leaflet ''map'') (\<lambda>m. setView leaflet m view_center view_zoom)
     (new_page [''nav''] ()) =
     (Inl (Error ''Map container not found.''), new_page [''nav''] ())"
    by (simp add: leaflet_def leaflet_map_def js_defs new_page_def new_node_def
        getElementById_def)
  from failed_view_creation_is_atomic [OF failed,
      where other_tileLayer = "\<lambda>u opts. js_throw (Error ''unreachable'')"
        and other_addTo = leaflet_addTo] failed
  show ?thesis by blast
qed

subsection \<open>Execution traces of the page\<close>

lemma map_update_same: "k < length xs \<Longrightarrow> (map f xs)[k := f (xs ! k)] = map f xs"
  by (simp add: list_update_same_conv)

lemma mount_bound_uncaught [simp]: "mount_bound (w\<lparr>uncaught := u\<rparr>) = mount_bound w"
  by (simp add: mount_bound_def getElementById_def cong: option.case_cong)

lemma mount_bound_listeners [simp]: "mount_bound (w\<lparr>listeners := u\<rparr>) = mount_bound w"
  by (simp add: mount_bound_def getElementById_def cong: option.case_cong)

lemma invoke_leaflet_absent:
  "getElementById w ''map'' = None \<Longrightarrow>
   invoke leaflet cb w = w\<lparr>uncaught := uncaught w @ [Error ''Map container not found.'']\<rparr>"
  by (cases cb) (simp add: invoke_def initializer_leaflet_absent)

lemma invoke_leaflet_bound:
  assumes "mount_bound w"
  shows "invoke leaflet cb w =
     w\<lparr>uncaught := uncaught w @ [Error ''Map container is already initialized.'']\<rparr>"
proof -
  from assms obtain k j where "getElementById w ''map'' = Some k"
    and "leaflet_id (elements w ! k) = Some j"
    by (auto simp add: mount_bound_def split: option.splits)
  then show ?thesis by (cases cb) (simp add: invoke_def initializer_leaflet_bound)
qed

lemma invoke_leaflet_ok:
  assumes "getElementById w ''map'' = Some k" and "leaflet_id (elements w ! k) = None"
  shows "invoke leaflet cb w =
     w\<lparr>elements := (elements w)
          [k := (elements w ! k)
             \<lparr>leaflet_id := Some (length (views w)),
              inserted := inserted (elements w ! k) @
                [MapPanes (length (views w)), LayerTiles (length (tiles w))]\<rparr>],
       views := views w @
          [\<lparr>container = k, center = Some view_center, zoom = Some view_zoom,
            attached = [length (tiles w)]\<rparr>],
       tiles := tiles w @ [\<lparr>urlTemplate = tile_url, layer_options = tile_opts\<rparr>],
       window_listeners := window_listeners w @ [(''resize'', OnResize (length (views w)))],
       window_leaflet_events :=
         window_leaflet_events w @ [(''resize'', OnResize (length (views w)))],
       requested := requested w @ [length (tiles w)]\<rparr>"
  using assms by (cases cb) (simp add: invoke_def initializer_leaflet_ok)

text \<open>A successful invocation leaves the mount element marked.\<close>

lemma invoke_leaflet_ok_bound:
  assumes "getElementById w ''map'' = Some k" and "leaflet_id (elements w ! k) = None"
  shows "mount_bound (invoke leaflet cb w)"
proof -
  let ?w' = "invoke leaflet cb w"
  from getElementById_valid [OF assms(1)] have k: "k < length (elements w)" by simp
  have els: "elements ?w' = (elements w)
          [k := (elements w ! k)
             \<lparr>leaflet_id := Some (length (views w)),
              inserted := inserted (elements w ! k) @
                [MapPanes (length (views w)), LayerTiles (length (tiles w))]\<rparr>]"
    by (simp add: invoke_leaflet_ok [OF assms])
  with k have "map node_id (elements ?w') = map node_id (elements w)"
    by (simp add: map_update map_update_same)
  from getElementById_ids [OF this, of "''map''"] assms(1)
  have "getElementById ?w' ''map'' = Some k" by simp
  moreover from els k have "leaflet_id (elements ?w' ! k) = Some (length (views w))" by simp
  ultimately show ?thesis by (simp add: mount_bound_def)
qed

lemma invoke_listeners: "listeners (invoke leaflet cb w) = listeners w"
proof (cases "getElementById w ''map''")
  case None
  then show ?thesis by (simp add: invoke_leaflet_absent)
next
  case (Some k)
  show ?thesis
  proof (cases "leaflet_id (elements w ! k)")
    case None
    with Some show ?thesis by (simp add: invoke_leaflet_ok)
  next
    case (Some j)
    with \<open>getElementById w ''map'' = Some k\<close> have "mount_bound w"
      by (simp add: mount_bound_def)
    then show ?thesis by (simp add: invoke_leaflet_bound)
  qed
qed

text \<open>At most one map and one layer; when there is a map, the mount element is marked.\<close>

lemma invoke_single_view:
  assumes "(views w = [] \<and> tiles w = []) \<or>
           (length (views w) = 1 \<and> length (tiles w) = 1 \<and> mount_bound w)"
  shows "(views (invoke leaflet cb w) = [] \<and> tiles (invoke leaflet cb w) = []) \<or>
         (length (views (invoke leaflet cb w)) = 1 \<and> length (tiles (invoke leaflet cb w)) = 1 \<and>
          mount_bound (invoke leaflet cb w))"
proof (cases "getElementById w ''map''")
  case None
  with assms show ?thesis by (simp add: invoke_leaflet_absent)
next
  case (Some k)
  show ?thesis
  proof (cases "leaflet_id (elements w ! k)")
    case None
    with Some have "\<not> mount_bound w" by (simp add: mount_bound_def)
    with assms have empty: "views w = []" "tiles w = []" by auto
    from invoke_leaflet_ok_bound [OF Some None, of cb] empty
    show ?thesis by (simp add: invoke_leaflet_ok [OF Some None])
  next
    case (Some j)
    with \<open>getElementById w ''map'' = Some k\<close> have "mount_bound w"
      by (simp add: mount_bound_def)
    with assms show ?thesis by (simp add: invoke_leaflet_bound)
  qed
qed

lemma fold_invoke_single_view:
  assumes "(views w = [] \<and> tiles w = []) \<or>
           (length (views w) = 1 \<and> length (tiles w) = 1 \<and> mount_bound w)"
  shows "(views (fold (invoke leaflet) cbs w) = [] \<and> tiles (fold (invoke leaflet) cbs w) = []) \<or>
         (length (views (fold (invoke leaflet) cbs w)) = 1 \<and>
          length (tiles (fold (invoke leaflet) cbs w)) = 1 \<and>
          mount_bound (fold (invoke leaflet) cbs w))"
  using assms
proof (induction cbs arbitrary: w)
  case Nil
  then show ?case by simp
next
  case (Cons cb cbs)
  from Cons.IH [OF invoke_single_view [OF Cons.prems, of cb]] show ?case by simp
qed

lemma exec_step_single_view:
  assumes "(views w = [] \<and> tiles w = []) \<or>
           (length (views w) = 1 \<and> length (tiles w) = 1 \<and> mount_bound w)"
  shows "(views (exec_step leaflet s w) = [] \<and> tiles (exec_step leaflet s w) = []) \<or>
         (length (views (exec_step leaflet s w)) = 1 \<and>
          length (tiles (exec_step leaflet s w)) = 1 \<and>
          mount_bound (exec_step leaflet s w))"
proof (cases s)
  case RunScript
  with assms show ?thesis by (simp add: script_def addEventListener_def)
next
  case (Fire ty)
  with fold_invoke_single_view [OF assms] show ?thesis by (simp add: dispatchEvent_def)
qed

lemma run_page_single_view:
  assumes "(views w = [] \<and> tiles w = []) \<or>
           (length (views w) = 1 \<and> length (tiles w) = 1 \<and> mount_bound w)"
  shows "length (views (run_page leaflet steps w)) \<le> 1 \<and>
         length (tiles (run_page leaflet steps w)) \<le> 1"
  using assms
proof (induction steps arbitrary: w)
  case Nil
  then show ?case by (auto simp add: run_page_def)
next
  case (Cons s steps)
  from Cons.IH [OF exec_step_single_view [OF Cons.prems, of s]]
  show ?case by (simp add: run_page_def)
qed

text \<open>Until the event fires: every listener waits for it, and the page is as loaded.\<close>

lemma fold_invoke_listeners: "listeners (fold (invoke leaflet) cbs w) = listeners w"
  by (induction cbs arbitrary: w) (simp_all add: invoke_listeners)

lemma exec_step_idle:
  assumes "s \<noteq> Fire ''DOMContentLoaded''"
    and "fst ` set (listeners w) \<subseteq> {''DOMContentLoaded''}"
  shows "views (exec_step leaflet s w) = views w \<and> tiles (exec_step leaflet s w) = tiles w \<and>
         elements (exec_step leaflet s w) = elements w \<and>
         fst ` set (listeners (exec_step leaflet s w)) \<subseteq> {''DOMContentLoaded''}"
proof (cases s)
  case RunScript
  with assms show ?thesis by (simp add: script_def addEventListener_def)
next
  case (Fire ty)
  with assms have "ty \<noteq> ''DOMContentLoaded''" by simp
  with assms(2) have "filter (\<lambda>(t, cb). t = ty) (listeners w) = []"
    by (auto simp add: filter_empty_conv)
  with Fire assms(2) show ?thesis by (simp add: dispatchEvent_def)
qed

lemma run_page_idle:
  assumes "Fire ''DOMContentLoaded'' \<notin> set steps"
    and "fst ` set (listeners w) \<subseteq> {''DOMContentLoaded''}"
  shows "views (run_page leaflet steps w) = views w \<and> tiles (run_page leaflet steps w) = tiles w \<and>
         elements (run_page leaflet steps w) = elements w"
  using assms
proof (induction steps arbitrary: w)
  case Nil
  then show ?case by (simp add: run_page_def)
next
  case (Cons s steps)
  from Cons.prems have s: "s \<noteq> Fire ''DOMContentLoaded''"
    and rest: "Fire ''DOMContentLoaded'' \<notin> set steps" by auto
  from exec_step_idle [OF s Cons.prems(2)] Cons.IH [OF rest, of "exec_step leaflet s w"]
  show ?case by (simp add: run_page_def)
qed

text \<open>Once a map is bound to the mount element, no step creates another object.\<close>

lemma invoke_after_bound:
  assumes "mount_bound w"
  shows "views (invoke leaflet cb w) = views w \<and> tiles (invoke leaflet cb w) = tiles w \<and>
         mount_bound (invoke leaflet cb w)"
  using assms by (simp add: invoke_leaflet_bound)

lemma fold_invoke_after_bound:
  assumes "mount_bound w"
  shows "views (fold (invoke leaflet) cbs w) = views w \<and>
         tiles (fold (invoke leaflet) cbs w) = tiles w \<and>
         mount_bound (fold (invoke leaflet) cbs w)"
  using assms
proof (induction cbs arbitrary: w)
  case Nil
  then show ?case by simp
next
  case (Cons cb cbs)
  from invoke_after_bound [OF Cons.prems, of cb]
  have same: "views (invoke leaflet cb w) = views w" "tiles (invoke leaflet cb w) = tiles w"
    and still: "mount_bound (invoke leaflet cb w)"
    by simp_all
  from Cons.IH [OF still] same show ?case by simp
qed

lemma exec_step_after_bound:
  assumes "mount_bound w"
  shows "views (exec_step leaflet s w) = views w \<and> tiles (exec_step leaflet s w) = tiles w \<and>
         mount_bound (exec_step leaflet s w)"
proof (cases s)
  case RunScript
  with assms show ?thesis by (simp add: script_def addEventListener_def)
next
  case (Fire ty)
  with fold_invoke_after_bound [OF assms] show ?thesis by (simp add: dispatchEvent_def)
qed

lemma run_page_after_bound:
  assumes "mount_bound w"
  shows "views (run_page leaflet steps w) = views w \<and> tiles (run_page leaflet steps w) = tiles w"
  using assms
proof (induction steps arbitrary: w)
  case Nil
  then show ?case by (simp add: run_page_def)
next
  case (Cons s steps)
  from exec_step_after_bound [OF Cons.prems, of s]
  have same: "views (exec_step leaflet s w) = views w" "tiles (exec_step leaflet s w) = tiles w"
    and still: "mount_bound (exec_step leaflet s w)"
    by simp_all
  from Cons.IH [OF still] same show ?case by (simp add: run_page_def)
qed

text \<open>Listeners are only ever added, and evaluating the script adds the initializer.\<close>

lemma exec_step_listeners:
  "set (listeners w) \<subseteq> set (listeners (exec_step leaflet s w))"
  by (cases s) (auto simp add: script_def addEventListener_def dispatchEvent_def fold_invoke_listeners)

lemma run_page_keeps_listeners:
  "set (listeners w) \<subseteq> set (listeners (run_page leaflet steps w))"
proof (induction steps arbitrary: w)
  case Nil
  show ?case by (simp add: run_page_def)
next
  case (Cons s steps)
  from exec_step_listeners [of w s] Cons.IH [of "exec_step leaflet s w"]
  show ?case by (auto simp add: run_page_def)
qed

lemma run_page_registers:
  assumes "RunScript \<in> set steps"
  shows "(''DOMContentLoaded'', InitMap) \<in> set (listeners (run_page leaflet steps w))"
  using assms
proof (induction steps arbitrary: w)
  case Nil
  then show ?case by simp
next
  case (Cons s steps)
  show ?case
  proof (cases "s = RunScript")
    case True
    have "(''DOMContentLoaded'', InitMap) \<in> set (listeners (exec_step leaflet s w))"
      using True by (simp add: script_def addEventListener_def)
    with run_page_keeps_listeners [of "exec_step leaflet s w" steps]
    show ?thesis by (auto simp add: run_page_def)
  next
    case False
    with Cons.prems have "RunScript \<in> set steps" by simp
    from Cons.IH [OF this, of "exec_step leaflet s w"] show ?thesis by (simp add: run_page_def)
  qed
qed

text \<open>The first firing: the first listener creates the map, the others find it bound.\<close>

lemma dispatch_creates_single_view:
  assumes "(ty, cb) \<in> set (listeners w)"
    and "getElementById w ''map'' = Some k" and "leaflet_id (elements w ! k) = None"
    and "views w = []"
  shows "length (views (dispatchEvent leaflet ty w)) = 1 \<and>
         mount_bound (dispatchEvent leaflet ty w)"
proof -
  from assms(1) have "cb \<in> set (map snd (filter (\<lambda>(t, cb). t = ty) (listeners w)))"
    by force
  then obtain c cs where cbs: "map snd (filter (\<lambda>(t, cb). t = ty) (listeners w)) = c # cs"
    by (cases "map snd (filter (\<lambda>(t, cb). t = ty) (listeners w))") auto
  let ?w1 = "invoke leaflet c w"
  from assms(4) have one: "length (views ?w1) = 1"
    by (simp add: invoke_leaflet_ok [OF assms(2,3)])
  have "mount_bound ?w1" by (rule invoke_leaflet_ok_bound [OF assms(2,3)])
  from fold_invoke_after_bound [OF this, of cs] one cbs
  show ?thesis by (simp add: dispatchEvent_def)
qed

lemma new_page_mount_free:
  assumes "''map'' \<in> set els"
  shows "\<exists>k. getElementById (new_page els e) ''map'' = Some k \<and>
             leaflet_id (elements (new_page els e) ! k) = None"
proof -
  from assms have "getElementById (new_page els e) ''map'' \<noteq> None"
    by (simp add: getElementById_None new_page_def new_node_def comp_def)
  then obtain k where k: "getElementById (new_page els e) ''map'' = Some k" by auto
  from getElementById_valid [OF k] have "k < length els" by (simp add: new_page_def)
  then have "leaflet_id (elements (new_page els e) ! k) = None"
    by (simp add: new_page_def new_node_def)
  with k show ?thesis by blast
qed

text \<open>
  Claim C4. Initialization happens in response to \<open>DOMContentLoaded\<close> and at most once.
  For every execution trace on a loaded page: as long as the event has not fired, no map
  view and no tile layer exists; over the whole trace, however often the script is
  evaluated and the event fires, at most one map view and at most one tile layer are ever
  constructed; and when the script was evaluated before the event fires on a page with
  the mount element, there is exactly one map view from that firing on.
\<close>

theorem nothing_before_event_one_view_ever:
  assumes "Fire ''DOMContentLoaded'' \<notin> set pre"
  shows "views (run_page leaflet pre (new_page els e)) = [] \<and>
         tiles (run_page leaflet pre (new_page els e)) = [] \<and>
         length (views (run_page leaflet (pre @ post) (new_page els e))) \<le> 1 \<and>
         length (tiles (run_page leaflet (pre @ post) (new_page els e))) \<le> 1 \<and>
         (RunScript \<in> set pre \<and> ''map'' \<in> set els \<longrightarrow>
            length (views (run_page leaflet (pre @ Fire ''DOMContentLoaded'' # post)
              (new_page els e))) = 1)"
proof -
  let ?w0 = "new_page els e :: 'a page"
  let ?w1 = "run_page leaflet pre ?w0"
  have idle: "views ?w1 = [] \<and> tiles ?w1 = [] \<and> elements ?w1 = elements ?w0"
    using run_page_idle [OF assms, of ?w0] by (simp add: new_page_def)
  have atmost: "length (views (run_page leaflet (pre @ post) ?w0)) \<le> 1 \<and>
         length (tiles (run_page leaflet (pre @ post) ?w0)) \<le> 1"
    by (rule run_page_single_view) (simp add: new_page_def)
  have once: "length (views (run_page leaflet (pre @ Fire ''DOMContentLoaded'' # post) ?w0)) = 1"
    if reg: "RunScript \<in> set pre" and mount: "''map'' \<in> set els"
  proof -
    let ?w2 = "dispatchEvent leaflet ''DOMContentLoaded'' ?w1"
    have registered: "(''DOMContentLoaded'', InitMap) \<in> set (listeners ?w1)"
      by (rule run_page_registers [OF reg])
    from new_page_mount_free [OF mount, of e] obtain k
      where "getElementById ?w0 ''map'' = Some k"
        and "leaflet_id (elements ?w0 ! k) = None"
      by blast
    with idle have free: "getElementById ?w1 ''map'' = Some k"
        "leaflet_id (elements ?w1 ! k) = None"
      by (simp_all add: getElementById_def)
    from idle have "views ?w1 = []" by simp
    from dispatch_creates_single_view [OF registered free this]
    have one: "length (views ?w2) = 1" and bound: "mount_bound ?w2" by simp_all
    from run_page_after_bound [OF bound, of post] one
    have "length (views (run_page leaflet post ?w2)) = 1" by simp
    moreover have "run_page leaflet (pre @ Fire ''DOMContentLoaded'' # post) ?w0 =
        run_page leaflet post ?w2"
      by (simp add: run_page_def)
    ultimately show ?thesis by simp
  qed
  from idle atmost once show ?thesis by blast
qed

theorem nothing_before_event_one_view_ever_witness:
  "Fire ''DOMContentLoaded'' \<notin> set [Fire ''click'', RunScript] \<and>
   RunScript \<in> set [Fire ''click'', RunScript] \<and> ''map'' \<in> set [''map''] \<and>
   views (run_page leaflet [Fire ''click'', RunScript] (new_page [''map''] ())) = [] \<and>
   tiles (run_page leaflet [Fire ''click'', RunScript] (new_page [''map''] ())) = [] \<and>
   length (views (run_page leaflet
     ([Fire ''click'', RunScript] @ [Fire ''DOMContentLoaded'', Fire ''DOMContentLoaded''])
     (new_page [''map''] ()))) \<le> 1 \<and>
   length (tiles (run_page leaflet
     ([Fire ''click'', RunScript] @ [Fire ''DOMContentLoaded'', Fire ''DOMContentLoaded''])
     (new_page [''map''] ()))) \<le> 1 \<and>
   length (views (run_page leaflet
     ([Fire ''click'', RunScript] @ Fire ''DOMContentLoaded'' # [Fire ''DOMContentLoaded''])
     (new_page [''map''] ()))) = 1"
proof -
  have quiet: "Fire ''DOMContentLoaded'' \<notin> set [Fire ''click'', RunScript]" by simp
  from nothing_before_event_one_view_ever [OF quiet,
      of "[''map'']" "()" "[Fire ''DOMContentLoaded'', Fire ''DOMContentLoaded'']"]
    nothing_before_event_one_view_ever [OF quiet, of "[''map'']" "()" "[Fire ''DOMContentLoaded'']"]
  show ?thesis by simp
qed

subsection \<open>Independence from the environment\<close>

lemma map_configuration_cong:
  assumes "elements w1 = elements w2" and "views w1 = views w2" and "tiles w1 = tiles w2"
  shows "map_configuration w1 = map_configuration w2"
proof -
  from assms(3) have "attached_layers w1 = attached_layers w2"
    by (simp add: attached_layers_def fun_eq_iff)
  moreover from assms(1) have "container_id w1 = container_id w2"
    by (simp add: container_id_def fun_eq_iff)
  ultimately show ?thesis using assms(2)
    by (simp add: map_configuration_def split: list.splits)
qed

text \<open>
  Claim C5. The initializer has no input but its literals. Two runs from pages with equal
  document and library state (the same elements, map objects and layer objects), which may
  differ in everything else, even in the type of their environment data, have the same
  outcome and leave the same elements, map objects and layers: the resulting map
  configuration is identical.
\<close>

theorem initializer_noninterference:
  fixes w1 :: "'a page" and w2 :: "'b page"
  assumes "elements w1 = elements w2" and "views w1 = views w2" and "tiles w1 = tiles w2"
  shows "fst (initializer leaflet w1) = fst (initializer leaflet w2) \<and>
         views (snd (initializer leaflet w1)) = views (snd (initializer leaflet w2)) \<and>
         tiles (snd (initializer leaflet w1)) = tiles (snd (initializer leaflet w2)) \<and>
         map_configuration (snd (initializer leaflet w1)) =
           map_configuration (snd (initializer leaflet w2)) \<and>
         elements (snd (initializer leaflet w1)) = elements (snd (initializer leaflet w2))"
proof -
  from assms(1) have lookup: "getElementById w1 ''map'' = getElementById w2 ''map''"
    by (simp add: getElementById_def)
  have "fst (initializer leaflet w1) = fst (initializer leaflet w2) \<and>
         elements (snd (initializer leaflet w1)) = elements (snd (initializer leaflet w2)) \<and>
         views (snd (initializer leaflet w1)) = views (snd (initializer leaflet w2)) \<and>
         tiles (snd (initializer leaflet w1)) = tiles (snd (initializer leaflet w2))"
  proof (cases "getElementById w1 ''map''")
    case None
    with lookup assms show ?thesis by (simp add: initializer_leaflet_absent)
  next
    case found: (Some k)
    show ?thesis
    proof (cases "leaflet_id (elements w1 ! k)")
      case None
      with found lookup assms show ?thesis by (simp add: initializer_leaflet_ok)
    next
      case (Some j)
      with found lookup assms show ?thesis by (simp add: initializer_leaflet_bound)
    qed
  qed
  then show ?thesis using map_configuration_cong by blast
qed

theorem initializer_noninterference_witness:
  "elements (new_page [''map''] ''dark'') = elements ((new_page [''map''] (7::nat))\<lparr>uncaught := [Error ''earlier'']\<rparr>) \<and>
   views (new_page [''map''] ''dark'') = views ((new_page [''map''] (7::nat))\<lparr>uncaught := [Error ''earlier'']\<rparr>) \<and>
   tiles (new_page [''map''] ''dark'') = tiles ((new_page [''map''] (7::nat))\<lparr>uncaught := [Error ''earlier'']\<rparr>) \<and>
   map_configuration (snd (initializer leaflet (new_page [''map''] ''dark''))) =
   map_configuration (snd (initializer leaflet
     ((new_page [''map''] (7::nat))\<lparr>uncaught := [Error ''earlier'']\<rparr>)))"
proof -
  let ?w1 = "new_page [''map''] ''dark''"
  let ?w2 = "(new_page [''map''] (7::nat))\<lparr>uncaught := [Error ''earlier'']\<rparr>"
  have e: "elements ?w1 = elements ?w2" and v: "views ?w1 = views ?w2"
    and t: "tiles ?w1 = tiles ?w2"
    by (simp_all add: new_page_def)
  from initializer_noninterference [OF e v t] e v t show ?thesis by blast
qed

subsection \<open>Frame\<close>


lemma getElementById_env [simp]: "getElementById (w\<lparr>env := x\<rparr>) i = getElementById w i"
  by (simp add: getElementById_def)



end
